theory Spec2Isabelle
  imports Main "HOL-Library.Word"
begin

section \<open>GlLayer: the texture handle of an OpenGL hardware layer\<close>

text \<open>
  The development embeds \<^verbatim>\<open>libs/hwui/GlLayer.cpp\<close>. A layer owns one texture; the
  texture's name \<^verbatim>\<open>mId\<close> is 0 while nothing is allocated. The methods of the layer talk
  to two collaborators: the OpenGL driver (\<^verbatim>\<open>glGenTextures\<close>, \<^verbatim>\<open>glDeleteTextures\<close>) and
  the texture binding tracker of the \<^verbatim>\<open>Caches\<close> singleton
  (\<^verbatim>\<open>caches.textureState()\<close>). Every call made to either of them is recorded, in order,
  in a list, so that "which calls were issued" is a value of the model.
\<close>

subsection \<open>Data\<close>

type_synonym GLuint = "32 word"
type_synonym GLenum = "32 word"
type_synonym uint32_t = "32 word"

text \<open>
  \<^verbatim>\<open>Layer::Api\<close>. The header declaring it is not part of the sources; the constructor
  uses \<^verbatim>\<open>Api::OpenGL\<close>, and any other backend is the second constructor.
\<close>

datatype Api = OpenGL | OtherApi

text \<open>The fields of \<^verbatim>\<open>Texture\<close> that \<^verbatim>\<open>GlLayer.cpp\<close> reads or writes.\<close>

record Texture =
  mId :: GLuint
  mWidth :: uint32_t
  mHeight :: uint32_t
  mTarget :: GLenum

record GlLayer =
  api :: Api
  texture :: Texture

text \<open>A call received by the driver or by the binding tracker, with its arguments.\<close>

datatype call =
    GlGenTextures GLuint \<comment> \<open>\<^verbatim>\<open>glGenTextures(1, &id)\<close>, with the name the driver wrote\<close>
  | GlDeleteTextures GLuint \<comment> \<open>\<^verbatim>\<open>glDeleteTextures(1, &id)\<close>\<close>
  | TextureState_bindTexture GLenum GLuint \<comment> \<open>tracker: \<^verbatim>\<open>bindTexture(target, id)\<close>\<close>
  | TextureState_unbindTexture GLuint \<comment> \<open>tracker: \<^verbatim>\<open>unbindTexture(id)\<close>\<close>

text \<open>
  The state a method runs in: the layer itself, whether the \<^verbatim>\<open>Caches\<close> singleton is
  initialized (\<^verbatim>\<open>caches.isInitialized()\<close>; the singleton is created and torn down
  by others), and the calls issued so far, oldest first.
\<close>

record state =
  layer :: GlLayer
  cachesInitialized :: bool
  calls :: "call list"

fun isDriverCall :: "call \<Rightarrow> bool" where
  "isDriverCall (GlGenTextures n) = True"
| "isDriverCall (GlDeleteTextures n) = True"
| "isDriverCall (TextureState_bindTexture t n) = False"
| "isDriverCall (TextureState_unbindTexture n) = False"

fun isTrackerCall :: "call \<Rightarrow> bool" where
  "isTrackerCall (GlGenTextures n) = False"
| "isTrackerCall (GlDeleteTextures n) = False"
| "isTrackerCall (TextureState_bindTexture t n) = True"
| "isTrackerCall (TextureState_unbindTexture n) = True"

fun isAllocate :: "call \<Rightarrow> bool" where
  "isAllocate (GlGenTextures n) = True"
| "isAllocate (GlDeleteTextures n) = False"
| "isAllocate (TextureState_bindTexture t n) = False"
| "isAllocate (TextureState_unbindTexture n) = False"

fun isDestroy :: "call \<Rightarrow> bool" where
  "isDestroy (GlGenTextures n) = False"
| "isDestroy (GlDeleteTextures n) = True"
| "isDestroy (TextureState_bindTexture t n) = False"
| "isDestroy (TextureState_unbindTexture n) = False"

fun isUnbind :: "call \<Rightarrow> bool" where
  "isUnbind (GlGenTextures n) = False"
| "isUnbind (GlDeleteTextures n) = False"
| "isUnbind (TextureState_bindTexture t n) = False"
| "isUnbind (TextureState_unbindTexture n) = True"

text \<open>
  The calls issued between a state \<open>s\<close> and a later state \<open>s'\<close>: the record only
  grows at its end, so these are the entries of \<open>s'\<close> beyond the length of \<open>s\<close>.
\<close>

definition issued :: "state \<Rightarrow> state \<Rightarrow> call list" where
  "issued s s' = drop (length (calls s)) (calls s')"

text \<open>
  The texture names that exist on the driver's side after a sequence of calls:
  \<^verbatim>\<open>glGenTextures\<close> creates the name it returns (0 is never a texture name),
  \<^verbatim>\<open>glDeleteTextures\<close> removes the name and ignores names that do not exist; calls to
  the tracker do not reach the driver's textures.
\<close>

fun driverStep :: "call \<Rightarrow> GLuint list \<Rightarrow> GLuint list" where
  "driverStep (GlGenTextures n) live = (if n = 0 then live else List.insert n live)"
| "driverStep (GlDeleteTextures n) live = removeAll n live"
| "driverStep (TextureState_bindTexture t n) live = live"
| "driverStep (TextureState_unbindTexture n) live = live"

definition driverTextures :: "call list \<Rightarrow> GLuint list" where
  "driverTextures cs = fold driverStep cs []"

subsection \<open>The parts of Texture that GlLayer.cpp calls\<close>

text \<open>
  Modelled from the spec: the constructor \<^verbatim>\<open>Texture(caches)\<close>, declared in a header that
  is not part of the sources. The handle starts as 0, the sentinel for "not allocated";
  the target is fixed per resource and is a parameter here; the dimensions are
  overwritten by the layer's constructor.
\<close>

definition Texture_new :: "GLenum \<Rightarrow> Texture" where
  "Texture_new tgt = \<lparr>mId = 0, mWidth = 0, mHeight = 0, mTarget = tgt\<rparr>"

text \<open>
  Modelled from the spec: \<^verbatim>\<open>Texture::deleteTexture()\<close>, whose file is not part of the
  sources; \<^verbatim>\<open>GlLayer.cpp\<close> only calls it, from the destructor and from
  \<^verbatim>\<open>onGlContextLost()\<close>. The spec describes three ways of giving up a handle:
  \<^verbatim>\<open>release()\<close>, \<^verbatim>\<open>invalidate()\<close> and the destroy performed at destruction. All three do
  nothing when the handle is 0 and leave the handle 0 otherwise; they differ only in the
  calls they issue for a nonzero handle. Those calls are the parameter \<open>teardown\<close>,
  a function of the handle being given up.
\<close>

definition deleteTexture :: "(GLuint \<Rightarrow> call list) \<Rightarrow> state \<Rightarrow> state" where
  "deleteTexture teardown s =
     (if mId (texture (layer s)) \<noteq> 0
      then s\<lparr>calls := calls s @ teardown (mId (texture (layer s))),
             layer := (layer s)\<lparr>texture := (texture (layer s))\<lparr>mId := 0\<rparr>\<rparr>\<rparr>
      else s)"

text \<open>
  Modelled from the spec: the calls of \<^verbatim>\<open>invalidate()\<close>, which the spec prescribes when
  the device context is gone: the handle is reset without issuing a driver destroy call,
  only the in-memory reset occurs.
\<close>

definition invalidate_calls :: "GLuint \<Rightarrow> call list" where
  "invalidate_calls n = []"


text \<open>
  Modelled from the spec: the calls of \<^verbatim>\<open>release()\<close>: ask the tracker to unbind the
  handle, then issue the driver's destroy-texture call.
\<close>

definition release_calls :: "GLuint \<Rightarrow> call list" where
  "release_calls n = [TextureState_unbindTexture n, GlDeleteTextures n]"

subsection \<open>GlLayer.cpp\<close>

text \<open>
  \<^verbatim>\<open>GlLayer::GlLayer(renderState, layerWidth, layerHeight)\<close>: the base class gets
  \<^verbatim>\<open>Api::OpenGL\<close>, the texture is constructed, then its width and height are set. The
  render state is only handed to the base class and is left out.
\<close>

definition GlLayer_new :: "GLenum \<Rightarrow> uint32_t \<Rightarrow> uint32_t \<Rightarrow> GlLayer" where
  "GlLayer_new tgt layerWidth layerHeight =
     \<lparr>api = OpenGL,
      texture = (Texture_new tgt)\<lparr>mWidth := layerWidth, mHeight := layerHeight\<rparr>\<rparr>"

text \<open>
  \<^verbatim>\<open>GlLayer::~GlLayer()\<close>: \<^verbatim>\<open>if (texture.mId) texture.deleteTexture();\<close>
  The first argument is what the absent \<^verbatim>\<open>deleteTexture()\<close> issues, as above.
\<close>

definition GlLayer_destroy :: "(GLuint \<Rightarrow> call list) \<Rightarrow> state \<Rightarrow> state" where
  "GlLayer_destroy teardown s =
     (if mId (texture (layer s)) \<noteq> 0 then deleteTexture teardown s else s)"

text \<open>\<^verbatim>\<open>GlLayer::onGlContextLost()\<close>: \<^verbatim>\<open>texture.deleteTexture();\<close>\<close>

definition onGlContextLost :: "(GLuint \<Rightarrow> call list) \<Rightarrow> state \<Rightarrow> state" where
  "onGlContextLost teardown s = deleteTexture teardown s"

text \<open>
  \<^verbatim>\<open>GlLayer::bindTexture() const\<close>:
  \<^verbatim>\<open>if (texture.mId) caches.textureState().bindTexture(texture.target(), texture.mId);\<close>
\<close>

definition bindTexture :: "state \<Rightarrow> state" where
  "bindTexture s =
     (if mId (texture (layer s)) \<noteq> 0
      then s\<lparr>calls := calls s @ [TextureState_bindTexture (mTarget (texture (layer s)))
                                                          (mId (texture (layer s)))]\<rparr>
      else s)"

text \<open>
  \<^verbatim>\<open>GlLayer::generateTexture()\<close>: \<^verbatim>\<open>if (!texture.mId) glGenTextures(1, &texture.mId);\<close>
  The name the driver writes into \<^verbatim>\<open>mId\<close> is the argument \<open>n\<close>. The names
  \<^verbatim>\<open>glGenTextures\<close> hands out are never 0; a driver that writes nothing (no usable
  context) is \<open>n = 0\<close>, since \<^verbatim>\<open>mId\<close> is 0 at the call.
\<close>

definition generateTexture :: "GLuint \<Rightarrow> state \<Rightarrow> state" where
  "generateTexture n s =
     (if mId (texture (layer s)) = 0
      then s\<lparr>calls := calls s @ [GlGenTextures n],
             layer := (layer s)\<lparr>texture := (texture (layer s))\<lparr>mId := n\<rparr>\<rparr>\<rparr>
      else s)"

text \<open>
  \<^verbatim>\<open>GlLayer::clearTexture()\<close>:
  \<^verbatim>\<open>if (caches.isInitialized()) caches.textureState().unbindTexture(texture.mId);\<close>
  \<^verbatim>\<open>texture.mId = 0;\<close>
  There is no test of \<^verbatim>\<open>mId\<close> and no call to the driver.
\<close>

definition clearTexture :: "state \<Rightarrow> state" where
  "clearTexture s =
     (let s' = (if cachesInitialized s
                then s\<lparr>calls := calls s @ [TextureState_unbindTexture (mId (texture (layer s)))]\<rparr>
                else s)
      in s'\<lparr>layer := (layer s')\<lparr>texture := (texture (layer s'))\<lparr>mId := 0\<rparr>\<rparr>\<rparr>)"

subsection \<open>Reachable states\<close>

text \<open>
  A layer starts from its constructor with nothing issued; afterwards any of its methods
  may run, with any name returned by the driver and whatever \<^verbatim>\<open>deleteTexture()\<close>
  issues, and the \<^verbatim>\<open>Caches\<close> singleton may be initialized or torn down at any moment.
  The destructor ends the layer's life and is not a step.
\<close>

inductive reachable :: "state \<Rightarrow> bool" where
  reach_new: "reachable \<lparr>layer = GlLayer_new tgt lw lh, cachesInitialized = b, calls = []\<rparr>"
| reach_lost: "reachable s \<Longrightarrow> reachable (onGlContextLost teardown s)"
| reach_bind: "reachable s \<Longrightarrow> reachable (bindTexture s)"
| reach_generate: "reachable s \<Longrightarrow> reachable (generateTexture n s)"
| reach_clear: "reachable s \<Longrightarrow> reachable (clearTexture s)"
| reach_caches: "reachable s \<Longrightarrow> reachable (s\<lparr>cachesInitialized := b\<rparr>)"

subsection \<open>Example states\<close>

text \<open>A fresh 256 by 256 layer, and the same layer holding the texture name 7.\<close>

definition fresh256 :: "bool \<Rightarrow> state" where
  "fresh256 b = \<lparr>layer = GlLayer_new 3553 256 256, cachesInitialized = b, calls = []\<rparr>"

definition allocated256 :: "bool \<Rightarrow> state" where
  "allocated256 b = generateTexture 7 (fresh256 b)"

section \<open>Basic facts\<close>

lemma issued_self: "issued s s = []"
  by (simp add: issued_def)

lemma deleteTexture_mId: "mId (texture (layer (deleteTexture teardown s))) = 0"
  by (simp add: deleteTexture_def)

lemma deleteTexture_unallocated:
  "mId (texture (layer s)) = 0 \<Longrightarrow> deleteTexture teardown s = s"
  by (simp add: deleteTexture_def)


lemma deleteTexture_cachesInitialized:
  "cachesInitialized (deleteTexture teardown s) = cachesInitialized s"
  by (simp add: deleteTexture_def)

lemma clearTexture_mId: "mId (texture (layer (clearTexture s))) = 0"
  by (simp add: clearTexture_def Let_def)

lemma clearTexture_issued:
  "issued s (clearTexture s) =
     (if cachesInitialized s then [TextureState_unbindTexture (mId (texture (layer s)))] else [])"
  by (simp add: clearTexture_def issued_def Let_def)

lemma clearTexture_cachesInitialized:
  "cachesInitialized (clearTexture s) = cachesInitialized s"
  by (simp add: clearTexture_def Let_def)

lemma clearTexture_unallocated_layer:
  "mId (texture (layer s)) = 0 \<Longrightarrow> layer (clearTexture s) = layer s"
  by (cases s; simp add: clearTexture_def Let_def)

lemma generateTexture_issued:
  "issued s (generateTexture n s) = (if mId (texture (layer s)) = 0 then [GlGenTextures n] else [])"
  by (simp add: generateTexture_def issued_def)

lemma generateTexture_allocated:
  "mId (texture (layer s)) \<noteq> 0 \<Longrightarrow> generateTexture n s = s"
  by (simp add: generateTexture_def)

lemma generateTexture_mId:
  "mId (texture (layer (generateTexture n s))) =
     (if mId (texture (layer s)) = 0 then n else mId (texture (layer s)))"
  by (simp add: generateTexture_def)

text \<open>
  On every layer, allocated or not, a second \<^verbatim>\<open>generateTexture()\<close> changes nothing once
  the first has left a handle.
\<close>

lemma generateTexture_again:
  "n1 \<noteq> 0 \<or> mId (texture (layer s)) \<noteq> 0 \<Longrightarrow>
   generateTexture n2 (generateTexture n1 s) = generateTexture n1 s"
  by (rule generateTexture_allocated) (auto simp add: generateTexture_mId)

text \<open>
  The destructor of an allocated layer and the context-loss notification run the same
  statement, \<^verbatim>\<open>texture.deleteTexture()\<close>. This is read off \<^verbatim>\<open>GlLayer.cpp\<close> alone: it
  holds whatever \<^verbatim>\<open>deleteTexture()\<close> does.
\<close>

lemma destroy_allocated_is_onGlContextLost:
  "mId (texture (layer s)) \<noteq> 0 \<Longrightarrow> GlLayer_destroy teardown s = onGlContextLost teardown s"
  by (simp add: GlLayer_destroy_def onGlContextLost_def)

text \<open>
  Hence no single \<^verbatim>\<open>deleteTexture()\<close> issues a driver destroy call when the destructor
  runs on an allocated layer and none when \<^verbatim>\<open>onGlContextLost()\<close> runs on it: the two
  behaviours the spec describes for these paths need two different primitives, and the
  source calls one.
\<close>

lemma context_loss_and_destruction_conflict:
  "mId (texture (layer s)) \<noteq> 0 \<Longrightarrow>
   \<not> (filter isDestroy (issued s (onGlContextLost teardown s)) = [] \<and>
      length (filter isDestroy (issued s (GlLayer_destroy teardown s))) = 1)"
  by (simp add: destroy_allocated_is_onGlContextLost)

lemma fresh256_simps:
  "mId (texture (layer (fresh256 b))) = 0"
  "cachesInitialized (fresh256 b) = b"
  "calls (fresh256 b) = []"
  by (simp_all add: fresh256_def GlLayer_new_def Texture_new_def)

lemma allocated256_simps:
  "mId (texture (layer (allocated256 b))) = 7"
  "cachesInitialized (allocated256 b) = b"
  "calls (allocated256 b) = [GlGenTextures 7]"
  by (simp_all add: allocated256_def generateTexture_def fresh256_simps)

lemma reachable_fresh256: "reachable (fresh256 b)"
  unfolding fresh256_def by (rule reach_new)

lemma reachable_allocated256: "reachable (allocated256 b)"
  unfolding allocated256_def by (rule reach_generate) (rule reachable_fresh256)

lemma driverTextures_snoc:
  "driverTextures (cs @ [c]) = driverStep c (driverTextures cs)"
  by (simp add: driverTextures_def)

text \<open>
  The half of the handle invariant that the code keeps: in every reachable state a
  nonzero handle names a texture that exists on the driver's side.
\<close>

lemma reachable_handle_registered:
  "reachable s \<Longrightarrow> mId (texture (layer s)) \<noteq> 0 \<Longrightarrow>
   mId (texture (layer s)) \<in> set (driverTextures (calls s))"
proof (induction rule: reachable.induct)
  case (reach_new tgt lw lh b)
  then show ?case by (simp add: GlLayer_new_def Texture_new_def)
next
  case (reach_lost s teardown)
  then show ?case by (simp add: onGlContextLost_def deleteTexture_mId)
next
  case (reach_bind s)
  then show ?case by (simp add: bindTexture_def driverTextures_snoc split: if_splits)
next
  case (reach_generate s n)
  then show ?case by (simp add: generateTexture_def driverTextures_snoc split: if_splits)
next
  case (reach_clear s)
  then show ?case by (simp add: clearTexture_mId)
next
  case (reach_caches s b)
  then show ?case by simp
qed

section \<open>The claims\<close>

subsection \<open>C1: context loss on an allocated layer\<close>



subsection \<open>C2: explicit reset with the caches initialized\<close>

text \<open>
  Claim C2 as stated: on a layer with \<^verbatim>\<open>mId != 0\<close> and \<^verbatim>\<open>caches.isInitialized()\<close>,
  \<^verbatim>\<open>clearTexture()\<close> leaves \<^verbatim>\<open>mId == 0\<close> having issued exactly one unbind and exactly
  one driver destroy call. The body of \<^verbatim>\<open>clearTexture()\<close> has no call to the driver: on
  the layer holding name 7 no destroy call is issued.
\<close>

theorem C2_counterexample:
  "mId (texture (layer (allocated256 True))) \<noteq> 0 \<and>
   cachesInitialized (allocated256 True) \<and>
   filter isDestroy (issued (allocated256 True) (clearTexture (allocated256 True))) = []"
  by (simp add: clearTexture_issued allocated256_simps)

text \<open>
  Claim C2, amended: on a layer with \<^verbatim>\<open>mId != 0\<close> and \<^verbatim>\<open>caches.isInitialized()\<close>,
  \<^verbatim>\<open>clearTexture()\<close> leaves \<^verbatim>\<open>mId == 0\<close> having issued exactly one call, the tracker's
  unbind of the old handle, and no call to the driver: the handle is forgotten, not
  destroyed.
\<close>

theorem C2_clearTexture_initialized:
  "mId (texture (layer s)) \<noteq> 0 \<Longrightarrow> cachesInitialized s \<Longrightarrow>
   mId (texture (layer (clearTexture s))) = 0 \<and>
   issued s (clearTexture s) = [TextureState_unbindTexture (mId (texture (layer s)))] \<and>
   length (filter isUnbind (issued s (clearTexture s))) = 1 \<and>
   filter isDriverCall (issued s (clearTexture s)) = []"
  by (simp add: clearTexture_mId clearTexture_issued)

theorem C2_clearTexture_initialized_witness:
  "mId (texture (layer (allocated256 True))) \<noteq> 0 \<and>
   cachesInitialized (allocated256 True) \<and>
   mId (texture (layer (clearTexture (allocated256 True)))) = 0 \<and>
   issued (allocated256 True) (clearTexture (allocated256 True))
     = [TextureState_unbindTexture 7] \<and>
   length (filter isUnbind (issued (allocated256 True) (clearTexture (allocated256 True)))) = 1 \<and>
   filter isDriverCall (issued (allocated256 True) (clearTexture (allocated256 True))) = []"
  using C2_clearTexture_initialized [of "allocated256 True"]
  by (simp add: allocated256_simps)

subsection \<open>C3: explicit reset after the caches were torn down\<close>

text \<open>
  Claim C3: for every layer, when \<^verbatim>\<open>caches.isInitialized()\<close> is false,
  \<^verbatim>\<open>clearTexture()\<close> still leaves \<^verbatim>\<open>mId == 0\<close> and issues no call to the tracker or to
  the driver.
\<close>

theorem C3_clearTexture_uninitialized:
  "\<not> cachesInitialized s \<Longrightarrow>
   mId (texture (layer (clearTexture s))) = 0 \<and> issued s (clearTexture s) = []"
  by (simp add: clearTexture_mId clearTexture_issued)

theorem C3_clearTexture_uninitialized_witness:
  "\<not> cachesInitialized (allocated256 False) \<and>
   mId (texture (layer (allocated256 False))) = 7 \<and>
   mId (texture (layer (clearTexture (allocated256 False)))) = 0 \<and>
   issued (allocated256 False) (clearTexture (allocated256 False)) = []"
  using C3_clearTexture_uninitialized [of "allocated256 False"]
  by (simp add: allocated256_simps)

subsection \<open>C4: allocating twice\<close>

text \<open>
  Claim C4: \<^verbatim>\<open>generateTexture()\<close> is idempotent: calling it twice in a row on a layer
  that is not yet allocated issues exactly one driver allocate call, and the second call
  leaves the handle unchanged (it changes nothing and issues nothing). The name \<open>n1\<close>
  handed out by the driver at the first call is a texture name, so not 0. (On a layer
  that already holds a handle both calls are the no-op of the guard, see
  \<open>generateTexture_again\<close>.)
\<close>

theorem C4_generateTexture_idempotent:
  "n1 \<noteq> 0 \<Longrightarrow> mId (texture (layer s)) = 0 \<Longrightarrow>
   length (filter isAllocate (issued s (generateTexture n2 (generateTexture n1 s)))) = 1 \<and>
   issued s (generateTexture n2 (generateTexture n1 s)) = [GlGenTextures n1] \<and>
   issued (generateTexture n1 s) (generateTexture n2 (generateTexture n1 s)) = [] \<and>
   mId (texture (layer (generateTexture n2 (generateTexture n1 s))))
     = mId (texture (layer (generateTexture n1 s))) \<and>
   mId (texture (layer (generateTexture n2 (generateTexture n1 s)))) = n1 \<and>
   generateTexture n2 (generateTexture n1 s) = generateTexture n1 s"
proof -
  assume n1: "n1 \<noteq> 0" and unalloc: "mId (texture (layer s)) = 0"
  have same: "generateTexture n2 (generateTexture n1 s) = generateTexture n1 s"
    using n1 by (simp add: generateTexture_again)
  show ?thesis
    using unalloc by (simp add: same issued_self generateTexture_issued generateTexture_mId)
qed

theorem C4_generateTexture_idempotent_witness:
  "(7::GLuint) \<noteq> 0 \<and>
   mId (texture (layer (fresh256 True))) = 0 \<and>
   length (filter isAllocate
     (issued (fresh256 True) (generateTexture 8 (generateTexture 7 (fresh256 True))))) = 1 \<and>
   mId (texture (layer (generateTexture 8 (generateTexture 7 (fresh256 True))))) = 7 \<and>
   generateTexture 8 (generateTexture 7 (fresh256 True)) = generateTexture 7 (fresh256 True)"
proof -
  have n: "(7::GLuint) \<noteq> 0"
    by simp
  have u: "mId (texture (layer (fresh256 True))) = 0"
    by (simp add: fresh256_simps)
  from n u C4_generateTexture_idempotent [OF n u, of 8]
  show ?thesis by blast
qed

subsection \<open>C5: a fresh layer, and binding while unallocated\<close>

text \<open>
  Claim C5: every freshly constructed layer has \<^verbatim>\<open>mId == 0\<close>, and \<^verbatim>\<open>bindTexture()\<close>
  invoked while \<^verbatim>\<open>mId == 0\<close> issues no call to the driver and none to the tracker (the
  state, calls included, is left as it was).
\<close>

theorem C5_fresh_layer_bindTexture:
  "mId (texture (GlLayer_new tgt lw lh)) = 0 \<and>
   (layer s = GlLayer_new tgt lw lh \<longrightarrow> issued s (bindTexture s) = []) \<and>
   (mId (texture (layer s)) = 0 \<longrightarrow> bindTexture s = s \<and> issued s (bindTexture s) = [])"
  by (simp add: GlLayer_new_def Texture_new_def bindTexture_def issued_self)

theorem C5_fresh_layer_bindTexture_witness:
  "layer (fresh256 True) = GlLayer_new 3553 256 256 \<and>
   mId (texture (layer (fresh256 True))) = 0 \<and>
   bindTexture (fresh256 True) = fresh256 True \<and>
   issued (fresh256 True) (bindTexture (fresh256 True)) = []"
proof -
  have l: "layer (fresh256 True) = GlLayer_new 3553 256 256"
    by (simp add: fresh256_def)
  have m: "mId (texture (layer (fresh256 True))) = 0"
    by (simp add: fresh256_simps)
  from C5_fresh_layer_bindTexture [of 3553 256 256 "fresh256 True"] l m
  show ?thesis by blast
qed

subsection \<open>C6: destruction\<close>



subsection \<open>C7: one reset path after the other\<close>

text \<open>
  Claim C7 as stated: once the handle has been reset to 0 by \<^verbatim>\<open>onGlContextLost()\<close> or by
  \<^verbatim>\<open>clearTexture()\<close>, invoking the other path issues no driver or tracker call.
  \<^verbatim>\<open>clearTexture()\<close> does not test the handle: after a context loss on the layer
  holding name 7, with the caches initialized, it asks the tracker to unbind handle 0,
  whichever calls \<^verbatim>\<open>deleteTexture()\<close> issued before.
\<close>

theorem C7_counterexample:
  "mId (texture (layer (onGlContextLost invalidate_calls (allocated256 True)))) = 0 \<and>
   issued (onGlContextLost invalidate_calls (allocated256 True))
          (clearTexture (onGlContextLost invalidate_calls (allocated256 True)))
     = [TextureState_unbindTexture 0] \<and>
   issued (onGlContextLost release_calls (allocated256 True))
          (clearTexture (onGlContextLost release_calls (allocated256 True)))
     = [TextureState_unbindTexture 0]"
  by (simp add: clearTexture_issued onGlContextLost_def deleteTexture_mId
      deleteTexture_cachesInitialized allocated256_simps)

text \<open>
  Claim C7, amended: for every layer, \<^verbatim>\<open>onGlContextLost()\<close> invoked after
  \<^verbatim>\<open>clearTexture()\<close> issues no call and leaves the handle 0; \<^verbatim>\<open>clearTexture()\<close>
  invoked after \<^verbatim>\<open>onGlContextLost()\<close> issues no driver call and leaves the handle 0,
  and its only call is one tracker unbind of handle 0 when the caches are initialized
  (none when they are not). No handle is released twice. This holds whatever
  \<^verbatim>\<open>deleteTexture()\<close> issues for a nonzero handle.
\<close>

theorem C7_reset_paths:
  "issued (clearTexture s) (onGlContextLost teardown (clearTexture s)) = [] \<and>
   mId (texture (layer (onGlContextLost teardown (clearTexture s)))) = 0 \<and>
   filter isDriverCall
     (issued (onGlContextLost teardown s) (clearTexture (onGlContextLost teardown s))) = [] \<and>
   issued (onGlContextLost teardown s) (clearTexture (onGlContextLost teardown s))
     = (if cachesInitialized s then [TextureState_unbindTexture 0] else []) \<and>
   mId (texture (layer (clearTexture (onGlContextLost teardown s)))) = 0"
  by (simp add: onGlContextLost_def deleteTexture_unallocated clearTexture_mId issued_self
      clearTexture_issued deleteTexture_mId deleteTexture_cachesInitialized)

theorem C7_reset_paths_witness:
  "issued (clearTexture (allocated256 True))
      (onGlContextLost release_calls (clearTexture (allocated256 True))) = [] \<and>
   filter isDriverCall (issued (onGlContextLost release_calls (allocated256 True))
      (clearTexture (onGlContextLost release_calls (allocated256 True)))) = [] \<and>
   issued (onGlContextLost invalidate_calls (allocated256 False))
      (clearTexture (onGlContextLost invalidate_calls (allocated256 False))) = []"
  using C7_reset_paths [of "allocated256 True" release_calls]
    C7_reset_paths [of "allocated256 False" invalidate_calls]
  by (simp add: allocated256_simps)

subsection \<open>C8: what handle 0 guarantees\<close>

text \<open>
  Claim C8 as stated: in every reachable state, \<^verbatim>\<open>mId == 0\<close> implies that no
  driver-side resource exists and that any bind or unbind performed then is a no-op.
  Allocate name 7 and call \<^verbatim>\<open>clearTexture()\<close>: the handle is 0, texture 7 was never
  destroyed and still exists in the driver, and a further \<^verbatim>\<open>clearTexture()\<close> sends the
  tracker an unbind of handle 0.
\<close>

theorem C8_counterexample:
  "reachable (clearTexture (allocated256 True)) \<and>
   mId (texture (layer (clearTexture (allocated256 True)))) = 0 \<and>
   driverTextures (calls (clearTexture (allocated256 True))) = [7] \<and>
   issued (clearTexture (allocated256 True)) (clearTexture (clearTexture (allocated256 True)))
     = [TextureState_unbindTexture 0]"
  by (simp add: reach_clear reachable_allocated256 clearTexture_mId clearTexture_issued
      clearTexture_cachesInitialized allocated256_simps)
    (simp add: clearTexture_def Let_def allocated256_simps driverTextures_def)

text \<open>
  Claim C8, amended: in every reachable state with \<^verbatim>\<open>mId == 0\<close>, \<^verbatim>\<open>bindTexture()\<close> is
  a no-op (the state, calls included, is unchanged), and \<^verbatim>\<open>clearTexture()\<close> leaves the
  layer unchanged and issues no driver call, its only call being one tracker unbind of
  handle 0 when the caches are initialized. A driver-side texture may still exist, since
  \<^verbatim>\<open>clearTexture()\<close> forgets a handle without destroying it.
\<close>

theorem C8_unallocated_noop:
  "reachable s \<Longrightarrow> mId (texture (layer s)) = 0 \<Longrightarrow>
   bindTexture s = s \<and>
   layer (clearTexture s) = layer s \<and>
   cachesInitialized (clearTexture s) = cachesInitialized s \<and>
   filter isDriverCall (issued s (clearTexture s)) = [] \<and>
   issued s (clearTexture s) = (if cachesInitialized s then [TextureState_unbindTexture 0] else [])"
  by (simp add: bindTexture_def clearTexture_unallocated_layer clearTexture_cachesInitialized
      clearTexture_issued)

theorem C8_unallocated_noop_witness:
  "reachable (clearTexture (allocated256 True)) \<and>
   mId (texture (layer (clearTexture (allocated256 True)))) = 0 \<and>
   bindTexture (clearTexture (allocated256 True)) = clearTexture (allocated256 True) \<and>
   filter isDriverCall (issued (clearTexture (allocated256 True))
       (clearTexture (clearTexture (allocated256 True)))) = []"
  using C8_unallocated_noop [of "clearTexture (allocated256 True)"]
  by (simp add: reach_clear reachable_allocated256 clearTexture_mId)

subsection \<open>C9: context loss before any allocation\<close>

text \<open>
  Claim C9: \<^verbatim>\<open>onGlContextLost()\<close> on a layer with \<^verbatim>\<open>mId == 0\<close> is a no-op: the handle
  remains 0 and no call is made to the driver or to the tracker. This holds whatever
  \<^verbatim>\<open>deleteTexture()\<close> issues for a nonzero handle.
\<close>

theorem C9_onGlContextLost_unallocated:
  "mId (texture (layer s)) = 0 \<Longrightarrow>
   onGlContextLost teardown s = s \<and>
   mId (texture (layer (onGlContextLost teardown s))) = 0 \<and>
   issued s (onGlContextLost teardown s) = []"
  by (simp add: onGlContextLost_def deleteTexture_unallocated issued_self)

theorem C9_onGlContextLost_unallocated_witness:
  "mId (texture (layer (fresh256 True))) = 0 \<and>
   onGlContextLost release_calls (fresh256 True) = fresh256 True \<and>
   mId (texture (layer (onGlContextLost release_calls (fresh256 True)))) = 0 \<and>
   issued (fresh256 True) (onGlContextLost release_calls (fresh256 True)) = [] \<and>
   onGlContextLost invalidate_calls (fresh256 True) = fresh256 True"
  using C9_onGlContextLost_unallocated [of "fresh256 True" release_calls]
    C9_onGlContextLost_unallocated [of "fresh256 True" invalidate_calls]
  by (simp add: fresh256_simps issued_self)

subsection \<open>C10: binding does not change the layer\<close>

text \<open>
  Claim C10: \<^verbatim>\<open>bindTexture()\<close> never mutates the layer or its texture: for every state,
  allocated or not, the handle, width, height, target and API variant after the call
  equal their values before it.
\<close>

theorem C10_bindTexture_frame:
  "mId (texture (layer (bindTexture s))) = mId (texture (layer s)) \<and>
   mWidth (texture (layer (bindTexture s))) = mWidth (texture (layer s)) \<and>
   mHeight (texture (layer (bindTexture s))) = mHeight (texture (layer s)) \<and>
   mTarget (texture (layer (bindTexture s))) = mTarget (texture (layer s)) \<and>
   api (layer (bindTexture s)) = api (layer s) \<and>
   layer (bindTexture s) = layer s"
  by (simp add: bindTexture_def)

theorem C10_bindTexture_frame_witness:
  "layer (bindTexture (allocated256 True)) = layer (allocated256 True) \<and>
   mId (texture (layer (bindTexture (allocated256 True)))) = 7 \<and>
   issued (allocated256 True) (bindTexture (allocated256 True))
     = [TextureState_bindTexture 3553 7] \<and>
   layer (bindTexture (fresh256 True)) = layer (fresh256 True)"
  using C10_bindTexture_frame [of "allocated256 True"] C10_bindTexture_frame [of "fresh256 True"]
  by (simp add: allocated256_simps bindTexture_def issued_def allocated256_def generateTexture_def
      fresh256_def GlLayer_new_def Texture_new_def)

end
